theory Spec2Isabelle
  imports Main "HOL-Library.AList"
begin

section \<open>The Apache TVM optimizer adapter (nebullvm/optimizers/tvm.py)\<close>

text \<open>
  The module sequences calls into an external compiler toolchain. The model keeps the
  adapter's own control flow and data exactly as the source has them and takes every call
  into the toolchain (ONNX loading, the Relay frontend, task extraction, the tuner, the
  build, the learner registry) as a parameter, gathered in the record \<open>toolchain\<close>.
  Exceptions are values of the type \<open>error\<close>; a function that can raise returns
  \<open>error + 'a\<close>. What the adapter reads from and writes to its surroundings (the process
  environment, GPU availability, the random source behind \<^verbatim>\<open>uuid.uuid4()\<close>, the files
  of the working directory) is the record \<open>world\<close>, passed through the calls.
\<close>

subsection \<open>Exceptions\<close>

datatype error =
    TypeError
  | ValueError
  | KeyError
  | NameError
  | LibraryError string
    \<comment> \<open>an exception raised inside an external library call, with its description\<close>

subsection \<open>Python built-ins: \<^verbatim>\<open>int()\<close>, \<^verbatim>\<open>os.getenv\<close>, \<^verbatim>\<open>str()\<close> of an index\<close>

text \<open>
  \<^verbatim>\<open>int(s)\<close> on ASCII text, base 10: surrounding whitespace is stripped, one optional
  sign follows, then decimal digits, where single underscores may stand between digits.
  Anything else raises ValueError, here \<open>None\<close>.
\<close>

definition is_space :: "char \<Rightarrow> bool" where
  "is_space c =
     (let n = (of_char c :: nat) in (9 \<le> n \<and> n \<le> 13) \<or> n = 32)"

definition is_digit :: "char \<Rightarrow> bool" where
  "is_digit c = (let n = (of_char c :: nat) in 48 \<le> n \<and> n \<le> 57)"

definition digit_val :: "char \<Rightarrow> nat" where
  "digit_val c = of_char c - 48"

definition strip :: "string \<Rightarrow> string" where
  "strip s = rev (dropWhile is_space (rev (dropWhile is_space s)))"

fun parse_digits :: "nat \<Rightarrow> string \<Rightarrow> nat option" where
  "parse_digits acc [] = Some acc"
| "parse_digits acc [c] =
     (if is_digit c then Some (10 * acc + digit_val c) else None)"
| "parse_digits acc (c # d # cs) =
     (if is_digit c then parse_digits (10 * acc + digit_val c) (d # cs)
      else if c = CHR ''_'' \<and> is_digit d then parse_digits (10 * acc + digit_val d) cs
      else None)"

definition parse_decimal :: "string \<Rightarrow> nat option" where
  "parse_decimal s =
     (case s of
        [] \<Rightarrow> None
      | c # cs \<Rightarrow> if is_digit c then parse_digits (digit_val c) cs else None)"

definition ascii_int :: "string \<Rightarrow> int option" where
  "ascii_int s =
     (case strip s of
        [] \<Rightarrow> None
      | c # cs \<Rightarrow>
          (if c = CHR ''-'' then map_option (\<lambda>n. - int n) (parse_decimal cs)
           else if c = CHR ''+'' then map_option int (parse_decimal cs)
           else map_option int (parse_decimal (c # cs))))"

text \<open>
  Two things about \<^verbatim>\<open>int(s)\<close> belong to the interpreter that runs the adapter and are
  parameters here.
  \<^item> \<open>int_max_str_digits\<close>: the limit on the number of digit characters of the text
    (\<^verbatim>\<open>sys.get_int_max_str_digits()\<close>, 4300 unless configured, 0 for no limit, also for
    an interpreter that has none); text with more digits raises ValueError. Signs,
    underscores and whitespace do not count, leading zeros do.
  \<^item> \<open>int_non_ascii\<close>: the result for text with a character outside ASCII, where
    \<^verbatim>\<open>int()\<close> reads the blanks and decimal digits of the interpreter's Unicode tables
    (the text of an environment variable is also decoded by the locale first); \<open>None\<close>
    is ValueError.
\<close>

record interpreter =
  int_max_str_digits :: nat
  int_non_ascii :: "string \<Rightarrow> int option"

definition is_ascii :: "char \<Rightarrow> bool" where
  "is_ascii c = ((of_char c :: nat) < 128)"

definition digit_count :: "string \<Rightarrow> nat" where
  "digit_count s = length (filter is_digit s)"

definition int_of_str :: "interpreter \<Rightarrow> string \<Rightarrow> error + int" where
  "int_of_str py s =
     (case (if list_all is_ascii s
            then (if int_max_str_digits py \<noteq> 0 \<and> int_max_str_digits py < digit_count s
                  then None
                  else ascii_int s)
            else int_non_ascii py s) of
        None \<Rightarrow> Inl ValueError
      | Some n \<Rightarrow> Inr n)"

text \<open>
  \<^verbatim>\<open>os.getenv(key, default)\<close> returns the string the variable holds, or the default when
  the variable is unset; the adapter's default is the integer 0, so the result is a string
  or an integer. \<^verbatim>\<open>int()\<close> of an integer is that integer.
\<close>

datatype pyval = PyStr string | PyInt int

definition getenv :: "(string \<rightharpoonup> string) \<Rightarrow> string \<Rightarrow> pyval \<Rightarrow> pyval" where
  "getenv env key dflt = (case env key of None \<Rightarrow> dflt | Some s \<Rightarrow> PyStr s)"

fun py_int :: "interpreter \<Rightarrow> pyval \<Rightarrow> error + int" where
  "py_int py (PyInt n) = Inr n"
| "py_int py (PyStr s) = int_of_str py s"

text \<open>\<^verbatim>\<open>str(i)\<close> of a non-negative integer: its decimal digits, without leading zeros.\<close>

definition digit_char :: "nat \<Rightarrow> char" where
  "digit_char d = char_of (48 + d)"

fun str_nat :: "nat \<Rightarrow> string" where
  "str_nat n = (if n < 10 then [digit_char n] else str_nat (n div 10) @ [digit_char (n mod 10)])"

declare str_nat.simps [simp del]

subsection \<open>Data of the adapter\<close>

text \<open>
  \<^verbatim>\<open>ModelParams\<close>: the batch size and the ordered list of input shapes, each a tuple of
  integers.
\<close>

record ModelParams =
  batch_size :: int
  input_sizes :: "int list list"

text \<open>
  Objects that only the toolchain looks into are handles: the loaded ONNX model, the
  Relay module and its parameter dictionary, a compiled library, a learner class of the
  registry, the network parameters a learner is given, and a learner.
\<close>

datatype OnnxModel = OnnxModel nat
datatype IRModule = IRModule nat
datatype Params = Params nat
datatype Lib = Lib nat
datatype LearnerClass = LearnerClass nat
datatype NetworkParameters = NetworkParameters nat
datatype Learner = Learner nat

text \<open>
  A tunable task: the adapter reads only \<^verbatim>\<open>len(task.config_space)\<close> of it.
\<close>

record Task =
  task_name :: string
  config_space_len :: nat

text \<open>
  The optimizer object: \<^verbatim>\<open>self.model.parent_library\<close> is the framework the model came
  from, \<^verbatim>\<open>self.model.parameters\<close> the network parameters. The framework enumeration is
  declared outside this module and is a type parameter here.
\<close>

record 'fw Model =
  parent_library :: 'fw
  parameters :: NetworkParameters

record 'fw ApacheTVMOptimizer =
  model :: "'fw Model"

text \<open>
  The dictionaries \<^verbatim>\<open>AUTO_TVM_TUNING_OPTION\<close> and \<^verbatim>\<open>AUTO_TVM_PARAMS\<close> of
  \<^verbatim>\<open>nebullvm.config\<close>, with the keys the adapter reads.
\<close>

record tuning_option =
  trials :: int
  early_stopping :: int

record tvm_params =
  number :: int
  repeat :: int
  timeout :: int
  min_repeat_ms :: int

text \<open>
  The arguments of the calls into AutoTVM, as the adapter builds them: the runner of
  \<^verbatim>\<open>autotvm.LocalRunner(...)\<close>, the measure option, and one record for
  \<^verbatim>\<open>XGBTuner(task, loss_type=...).tune(n_trial=..., early_stopping=..., measure_option=...,
  callbacks=[autotvm.callback.log_to_file(f)])\<close>, where \<open>arg_callbacks\<close> lists the files
  of the \<^verbatim>\<open>log_to_file\<close> callbacks.
\<close>

record LocalRunner =
  runner_number :: int
  runner_repeat :: int
  runner_timeout :: int
  runner_min_repeat_ms :: int
  enable_cpu_cache_flush :: bool

record measure_option =
  builder_build_func :: string
  runner :: LocalRunner

record tune_call =
  arg_task :: Task
  arg_loss_type :: string
  arg_n_trial :: int
  arg_early_stopping :: int
  arg_measure_option :: measure_option
  arg_callbacks :: "string list"

record PassContext =
  opt_level :: nat
  config :: "(string \<times> string) list"

subsection \<open>The surroundings of a call\<close>

text \<open>
  \<open>interp\<close> is the interpreter, \<open>environ\<close> the process environment.
  \<open>uuid4_stream w k\<close> is the text \<^verbatim>\<open>str(uuid.uuid4())\<close> of the \<open>k\<close>-th draw from the
  random source, and \<open>uuid4_calls\<close> counts the draws made so far. \<open>files\<close> is the working
  directory: the lines of each file that exists. \<open>tuner_events\<close> records, in order,
  each tuner run that was started and each that returned.
\<close>

datatype event = TuneBegin tune_call | TuneEnd tune_call

record world =
  interp :: interpreter
  environ :: "string \<rightharpoonup> string"
  cuda_is_available :: bool
  uuid4_stream :: "nat \<Rightarrow> string"
  uuid4_calls :: nat
  files :: "string \<rightharpoonup> string list"
  tuner_events :: "event list"

subsection \<open>What the module imports\<close>

text \<open>
  The module imports TVM inside a guard:
  \<^verbatim>\<open>
  try:
      import tvm
      from tvm import IRModule
      from tvm.nd import NDArray
      from tvm.autotvm.tuner import XGBTuner
      from tvm import autotvm
      import tvm.relay as relay
  except ImportError:
      warnings.warn("Not found any valid tvm installation")
      IRModule = object
      NDArray = object
  \<close>
  When an import fails the module still loads, and the names whose import did not
  complete stay unbound: using one raises NameError. \<open>tvm_bound\<close> says whether
  \<^verbatim>\<open>import tvm\<close> completed, that is, whether the name \<^verbatim>\<open>tvm\<close> is bound. Every call
  that leaves the module is a field of the record, its result being the outcome of
  evaluating the call expression; for the calls through \<^verbatim>\<open>relay\<close> and \<^verbatim>\<open>autotvm\<close> a
  NameError of the unbound name is one of the exceptions this outcome can be.
  \<^verbatim>\<open>XGBTuner\<close> is imported before \<^verbatim>\<open>autotvm\<close>, so it is bound wherever the tuning loop
  is reached.
  \<^item> \<open>tvm_target_cuda\<close>: the text \<^verbatim>\<open>str(tvm.target.cuda())\<close>, when \<^verbatim>\<open>tvm\<close> is bound;
  \<^item> \<open>onnx_load\<close>: \<^verbatim>\<open>onnx.load(path)\<close>, raising for a missing or invalid file;
  \<^item> \<open>from_onnx\<close>: \<^verbatim>\<open>relay.frontend.from_onnx(onnx_model, shape_dict)\<close>;
  \<^item> \<open>extract_from_program\<close>: \<^verbatim>\<open>autotvm.task.extract_from_program(mod["main"],
    target=target, params=params)\<close>;
  \<^item> \<open>xgb_tune\<close>: one tuner run in given surroundings, giving the lines its callbacks
    were handed and the exception that ended it, if one did;
  \<^item> \<open>relay_build\<close>: \<^verbatim>\<open>relay.build(mod, target=target, params=params)\<close> inside
    \<^verbatim>\<open>autotvm.apply_history_best(tuning_records)\<close> and the pass context; its first
    argument is what the tuning-records file holds, if the file exists;
  \<^item> \<open>TVM_INFERENCE_LEARNERS\<close>: the registry, framework to learner class;
  \<^item> \<open>from_runtime_module\<close>: the class method of a learner class, with the arguments
    \<open>network_parameters\<close>, \<open>lib\<close>, \<open>target_device\<close>, \<open>input_name\<close>;
  \<^item> \<open>AUTO_TVM_TUNING_OPTION\<close>, \<open>AUTO_TVM_PARAMS\<close>: the configuration constants.
\<close>

record 'fw toolchain =
  tvm_bound :: bool
  tvm_target_cuda :: string
  onnx_load :: "string \<Rightarrow> error + OnnxModel"
  from_onnx :: "OnnxModel \<Rightarrow> (string \<times> int list) list \<Rightarrow> error + (IRModule \<times> Params)"
  extract_from_program :: "IRModule \<Rightarrow> string \<Rightarrow> Params \<Rightarrow> error + Task list"
  xgb_tune :: "tune_call \<Rightarrow> world \<Rightarrow> string list \<times> error option"
  relay_build ::
    "string list option \<Rightarrow> PassContext \<Rightarrow> IRModule \<Rightarrow> string \<Rightarrow> Params \<Rightarrow> error + Lib"
  TVM_INFERENCE_LEARNERS :: "'fw \<rightharpoonup> LearnerClass"
  from_runtime_module ::
    "LearnerClass \<Rightarrow> NetworkParameters \<Rightarrow> Lib \<Rightarrow> string \<Rightarrow> string \<Rightarrow> error + Learner"
  AUTO_TVM_TUNING_OPTION :: tuning_option
  AUTO_TVM_PARAMS :: tvm_params

subsection \<open>Effects on the surroundings\<close>

definition uuid4 :: "world \<Rightarrow> string \<times> world" where
  "uuid4 w = (uuid4_stream w (uuid4_calls w), w\<lparr>uuid4_calls := Suc (uuid4_calls w)\<rparr>)"

text \<open>
  The callback \<^verbatim>\<open>autotvm.callback.log_to_file(f)\<close> opens \<open>f\<close> for appending whenever the
  tuner hands it measured records, so the file comes to exist with the first records.
\<close>

definition log_to_file :: "string \<Rightarrow> string list \<Rightarrow> world \<Rightarrow> world" where
  "log_to_file file_out records w =
     (if records = [] then w
      else w\<lparr>files := (files w)(file_out \<mapsto>
             (case files w file_out of None \<Rightarrow> [] | Some old \<Rightarrow> old) @ records)\<rparr>)"

text \<open>
  One tuner run: it is started, its callbacks write what it measured, and it either
  returns or raises.
\<close>

definition run_tuner :: "'fw toolchain \<Rightarrow> tune_call \<Rightarrow> world \<Rightarrow> (error + unit) \<times> world" where
  "run_tuner tc c w =
     (let w1 = w\<lparr>tuner_events := tuner_events w @ [TuneBegin c]\<rparr>;
          (records, exc) = xgb_tune tc c w1;
          w2 = fold (\<lambda>f. log_to_file f records) (arg_callbacks c) w1
      in case exc of
           Some e \<Rightarrow> (Inl e, w2)
         | None \<Rightarrow> (Inr (), w2\<lparr>tuner_events := tuner_events w2 @ [TuneEnd c]\<rparr>))"

subsection \<open>Target selection\<close>

text \<open>
  \<^verbatim>\<open>
  def _get_target() -> str:
      force_on_cpu = int(os.getenv("TVM_ON_CPU", 0)) > 1
      if not force_on_cpu and torch.cuda.is_available():
          return str(tvm.target.cuda())
      else:
          return "llvm"  # run on CPU
  \<close>
\<close>

definition get_target :: "'fw toolchain \<Rightarrow> world \<Rightarrow> error + string" where
  "get_target tc w =
     (case py_int (interp w) (getenv (environ w) ''TVM_ON_CPU'' (PyInt 0)) of
        Inl e \<Rightarrow> Inl e
      | Inr n \<Rightarrow>
          (let force_on_cpu = (n > 1) in
           if \<not> force_on_cpu \<and> cuda_is_available w
           then (if tvm_bound tc then Inr (tvm_target_cuda tc) else Inl NameError)
           else Inr ''llvm''))"

subsection \<open>Parsing the ONNX model\<close>

text \<open>
  A dictionary keeps its keys in insertion order, and storing under a key that is present
  replaces the value in place: an association list with \<open>AList.update\<close>. A dictionary
  comprehension stores its pairs one after another into the empty dictionary.
\<close>

definition dict_comprehension :: "('k \<times> 'v) list \<Rightarrow> ('k \<times> 'v) list" where
  "dict_comprehension kvs = foldl (\<lambda>d (k, v). AList.update k v d) [] kvs"

text \<open>
  \<^verbatim>\<open>
  def _build_tvm_model(onnx_model_path: str, model_params: ModelParams):
      shape_dict = {
          f"input_{i}": (model_params.batch_size, *input_size)
          for i, input_size in enumerate(model_params.input_sizes)
      }
      onnx_model = onnx.load(onnx_model_path)
      mod, params = relay.frontend.from_onnx(onnx_model, shape_dict)
      return mod, params
  \<close>
\<close>

definition input_key :: "nat \<Rightarrow> string" where
  "input_key i = ''input_'' @ str_nat i"

definition shape_dict :: "ModelParams \<Rightarrow> (string \<times> int list) list" where
  "shape_dict model_params =
     dict_comprehension
       (map (\<lambda>(i, input_size). (input_key i, batch_size model_params # input_size))
            (enumerate 0 (input_sizes model_params)))"

definition build_tvm_model ::
  "'fw toolchain \<Rightarrow> string \<Rightarrow> ModelParams \<Rightarrow> error + (IRModule \<times> Params)" where
  "build_tvm_model tc onnx_model_path model_params =
     (let shapes = shape_dict model_params in
      case onnx_load tc onnx_model_path of
        Inl e \<Rightarrow> Inl e
      | Inr onnx_model \<Rightarrow> from_onnx tc onnx_model shapes)"

text \<open>
  A call of \<^verbatim>\<open>_build_tvm_model\<close>: the static method has two required positional
  parameters, and Python raises TypeError before the body runs when a call leaves a
  required parameter without an argument.
\<close>

fun call_build_tvm_model ::
  "'fw toolchain \<Rightarrow> string option \<Rightarrow> ModelParams option \<Rightarrow> error + (IRModule \<times> Params)" where
  "call_build_tvm_model tc (Some onnx_model_path) (Some model_params) =
     build_tvm_model tc onnx_model_path model_params"
| "call_build_tvm_model tc _ _ = Inl TypeError"

subsection \<open>Tuning\<close>

text \<open>
  \<^verbatim>\<open>
  def _tune_tvm_model(target, mod, params) -> str:
      tuning_records = f"{uuid.uuid4()}_model_records.json"
      runner = autotvm.LocalRunner(
          number=AUTO_TVM_PARAMS["number"], repeat=AUTO_TVM_PARAMS["repeat"],
          timeout=AUTO_TVM_PARAMS["timeout"],
          min_repeat_ms=AUTO_TVM_PARAMS["min_repeat_ms"],
          enable_cpu_cache_flush=True)
      tasks = autotvm.task.extract_from_program(mod["main"], target=target, params=params)
      for i, task in enumerate(tasks):
          tuner_obj = XGBTuner(task, loss_type="rank")
          tuner_obj.tune(
              n_trial=min(AUTO_TVM_TUNING_OPTION["trials"], len(task.config_space)),
              early_stopping=AUTO_TVM_TUNING_OPTION["early_stopping"],
              measure_option=autotvm.measure_option(
                  builder=autotvm.LocalBuilder(build_func="default"), runner=runner),
              callbacks=[autotvm.callback.log_to_file(tuning_records)])
      return tuning_records
  \<close>
\<close>

definition records_name :: "string \<Rightarrow> string" where
  "records_name u = u @ ''_model_records.json''"

definition local_runner :: "'fw toolchain \<Rightarrow> LocalRunner" where
  "local_runner tc =
     \<lparr>runner_number = number (AUTO_TVM_PARAMS tc),
      runner_repeat = repeat (AUTO_TVM_PARAMS tc),
      runner_timeout = timeout (AUTO_TVM_PARAMS tc),
      runner_min_repeat_ms = min_repeat_ms (AUTO_TVM_PARAMS tc),
      enable_cpu_cache_flush = True\<rparr>"

definition tuner_call :: "'fw toolchain \<Rightarrow> string \<Rightarrow> LocalRunner \<Rightarrow> Task \<Rightarrow> tune_call" where
  "tuner_call tc tuning_records rnr task =
     \<lparr>arg_task = task,
      arg_loss_type = ''rank'',
      arg_n_trial = min (trials (AUTO_TVM_TUNING_OPTION tc)) (int (config_space_len task)),
      arg_early_stopping = early_stopping (AUTO_TVM_TUNING_OPTION tc),
      arg_measure_option = \<lparr>builder_build_func = ''default'', runner = rnr\<rparr>,
      arg_callbacks = [tuning_records]\<rparr>"

fun tune_tasks ::
  "'fw toolchain \<Rightarrow> string \<Rightarrow> LocalRunner \<Rightarrow> (nat \<times> Task) list \<Rightarrow> world \<Rightarrow> (error + unit) \<times> world"
  where
  "tune_tasks tc tuning_records rnr [] w = (Inr (), w)"
| "tune_tasks tc tuning_records rnr ((i, task) # rest) w =
     (case run_tuner tc (tuner_call tc tuning_records rnr task) w of
        (Inl e, w') \<Rightarrow> (Inl e, w')
      | (Inr u, w') \<Rightarrow> tune_tasks tc tuning_records rnr rest w')"

definition tune_tvm_model ::
  "'fw toolchain \<Rightarrow> string \<Rightarrow> IRModule \<Rightarrow> Params \<Rightarrow> world \<Rightarrow> (error + string) \<times> world" where
  "tune_tvm_model tc target irmod params w =
     (let (u, w1) = uuid4 w;
          tuning_records = records_name u;
          rnr = local_runner tc
      in case extract_from_program tc irmod target params of
           Inl e \<Rightarrow> (Inl e, w1)
         | Inr tasks \<Rightarrow>
             (case tune_tasks tc tuning_records rnr (enumerate 0 tasks) w1 of
                (Inl e, w2) \<Rightarrow> (Inl e, w2)
              | (Inr u, w2) \<Rightarrow> (Inr tuning_records, w2)))"

subsection \<open>Reading the record of tuner events\<close>

text \<open>
  \<open>started es\<close> lists the tuner runs that were started, in order. \<open>one_after_another cs\<close>
  is the record of runs that each returned before the next one started.
\<close>

fun started :: "event list \<Rightarrow> tune_call list" where
  "started [] = []"
| "started (TuneBegin c # es) = c # started es"
| "started (TuneEnd c # es) = started es"

definition one_after_another :: "tune_call list \<Rightarrow> event list" where
  "one_after_another cs = concat (map (\<lambda>c. [TuneBegin c, TuneEnd c]) cs)"

subsection \<open>The pipeline\<close>

text \<open>
  \<^verbatim>\<open>
  def optimize(self, onnx_model: str, output_library: DeepLearningFramework,
               model_params: ModelParams) -> ApacheTVMInferenceLearner:
      target = self._get_target()
      mod, params = self._build_tvm_model()
      tuning_records = self._tune_tvm_model(target, mod, params)
      with autotvm.apply_history_best(tuning_records):
          with tvm.transform.PassContext(opt_level=3, config={}):
              lib = relay.build(mod, target=target, params=params)
      model = TVM_INFERENCE_LEARNERS[self.model.parent_library].from_runtime_module(
          network_parameters=self.model.parameters, lib=lib,
          target_device=target, input_name="input")
      return model
  \<close>
  The second line calls the static method with no argument at all.
\<close>

definition optimize ::
  "'fw toolchain \<Rightarrow> 'fw ApacheTVMOptimizer \<Rightarrow> string \<Rightarrow> 'fw \<Rightarrow> ModelParams \<Rightarrow> world
     \<Rightarrow> (error + Learner) \<times> world" where
  "optimize tc self onnx_model output_library model_params w =
     (case get_target tc w of
        Inl e \<Rightarrow> (Inl e, w)
      | Inr target \<Rightarrow>
          (case call_build_tvm_model tc None None of
             Inl e \<Rightarrow> (Inl e, w)
           | Inr (irmod, params) \<Rightarrow>
               (case tune_tvm_model tc target irmod params w of
                  (Inl e, w1) \<Rightarrow> (Inl e, w1)
                | (Inr tuning_records, w1) \<Rightarrow>
                    (case relay_build tc (files w1 tuning_records)
                            \<lparr>opt_level = 3, config = []\<rparr> irmod target params of
                       Inl e \<Rightarrow> (Inl e, w1)
                     | Inr lib \<Rightarrow>
                         (case TVM_INFERENCE_LEARNERS tc (parent_library (model self)) of
                            None \<Rightarrow> (Inl KeyError, w1)
                          | Some learner_class \<Rightarrow>
                              (from_runtime_module tc learner_class (parameters (model self))
                                 lib target ''input'', w1))))))"

subsection \<open>Concrete inputs\<close>

text \<open>
  A toolchain with a model file \<^verbatim>\<open>model.onnx\<close> that loads and parses, two tunable
  tasks, a tuner that hands one line per task to its callbacks, and a registry for the
  frameworks \<^verbatim>\<open>torch\<close> and \<^verbatim>\<open>tensorflow\<close>.
\<close>

definition example_tasks :: "Task list" where
  "example_tasks =
     [\<lparr>task_name = ''conv2d'', config_space_len = 4\<rparr>,
      \<lparr>task_name = ''dense'', config_space_len = 1000\<rparr>]"

definition example_toolchain :: "string toolchain" where
  "example_toolchain =
     \<lparr>tvm_bound = True,
      tvm_target_cuda = ''cuda -keys=cuda,gpu -max_num_threads=1024 -thread_warp_size=32'',
      onnx_load = (\<lambda>path. if path = ''model.onnx'' then Inr (OnnxModel 0)
                             else Inl (LibraryError ''FileNotFoundError'')),
      from_onnx = (\<lambda>onnx_model shapes. Inr (IRModule 0, Params 0)),
      extract_from_program = (\<lambda>irmod target params. Inr example_tasks),
      xgb_tune = (\<lambda>c w. ([task_name (arg_task c)], None)),
      relay_build = (\<lambda>history ctx irmod target params. Inr (Lib 0)),
      TVM_INFERENCE_LEARNERS = [''torch'' \<mapsto> LearnerClass 0, ''tensorflow'' \<mapsto> LearnerClass 1],
      from_runtime_module = (\<lambda>cls network_parameters lib target_device input_name.
                               Inr (Learner 0)),
      AUTO_TVM_TUNING_OPTION = \<lparr>trials = 10, early_stopping = 100\<rparr>,
      AUTO_TVM_PARAMS = \<lparr>number = 10, repeat = 1, timeout = 10, min_repeat_ms = 0\<rparr>\<rparr>"

text \<open>
  The same toolchain without a TVM installation: the import guard ran, no name of TVM
  is bound, and every call through \<^verbatim>\<open>relay\<close> or \<^verbatim>\<open>autotvm\<close> raises NameError.
\<close>

definition stub_toolchain :: "string toolchain" where
  "stub_toolchain =
     example_toolchain
       \<lparr>tvm_bound := False,
        from_onnx := (\<lambda>onnx_model shapes. Inl NameError),
        extract_from_program := (\<lambda>irmod target params. Inl NameError),
        relay_build := (\<lambda>history ctx irmod target params. Inl NameError)\<rparr>"

definition example_params :: ModelParams where
  "example_params = \<lparr>batch_size = 1, input_sizes = [[3, 224, 224], [10]]\<rparr>"

definition example_optimizer :: "string \<Rightarrow> string ApacheTVMOptimizer" where
  "example_optimizer fw =
     \<lparr>model = \<lparr>parent_library = fw, parameters = NetworkParameters 0\<rparr>\<rparr>"

text \<open>
  Surroundings: the variable \<^verbatim>\<open>TVM_ON_CPU\<close> set as given (or unset), a GPU present or
  not, an empty working directory, a random source whose first draw is \<open>u0\<close> and
  whose later draws are \<open>u1\<close>, and an interpreter with the digit limit 4300 that reads no
  non-ASCII text as an integer.
\<close>

definition example_interpreter :: interpreter where
  "example_interpreter = \<lparr>int_max_str_digits = 4300, int_non_ascii = (\<lambda>s. None)\<rparr>"

definition example_world :: "string option \<Rightarrow> bool \<Rightarrow> string \<Rightarrow> string \<Rightarrow> world" where
  "example_world tvm_on_cpu gpu u0 u1 =
     \<lparr>interp = example_interpreter,
      environ = (\<lambda>key. if key = ''TVM_ON_CPU'' then tvm_on_cpu else None),
      cuda_is_available = gpu,
      uuid4_stream = (\<lambda>k. if k = 0 then u0 else u1),
      uuid4_calls = 0,
      files = Map.empty,
      tuner_events = []\<rparr>"

definition uuid_a :: string where
  "uuid_a = ''6fa459ea-ee8a-4ca4-894e-db77e160355e''"

definition uuid_b :: string where
  "uuid_b = ''16fd2706-8baf-433b-82eb-8c7fada847da''"

section \<open>Properties\<close>

subsection \<open>Evaluation of the concrete inputs\<close>

lemmas int_of_str_eval =
  int_of_str_def example_interpreter_def is_ascii_def digit_count_def ascii_int_def strip_def
  is_space_def parse_decimal_def is_digit_def digit_val_def

lemma int_of_str_2: "int_of_str example_interpreter ''2'' = Inr 2"
  by (simp add: int_of_str_eval)

lemma int_of_str_1: "int_of_str example_interpreter ''1'' = Inr 1"
  by (simp add: int_of_str_eval)

lemma example_interp: "interp (example_world tvm_on_cpu gpu u0 u1) = example_interpreter"
  by (simp add: example_world_def)

lemma example_build_model:
  "build_tvm_model example_toolchain ''model.onnx'' example_params = Inr (IRModule 0, Params 0)"
  by (simp add: build_tvm_model_def example_toolchain_def)


lemma example_target_cpu:
  "get_target example_toolchain (example_world None False u0 u1) = Inr ''llvm''"
  by (simp add: get_target_def getenv_def example_world_def)

subsection \<open>Target selection\<close>

lemma getenv_int_unset:
  "environ w ''TVM_ON_CPU'' = None \<Longrightarrow>
     py_int (interp w) (getenv (environ w) ''TVM_ON_CPU'' (PyInt 0)) = Inr 0"
  by (simp add: getenv_def)

lemma getenv_int_set:
  "environ w ''TVM_ON_CPU'' = Some s \<Longrightarrow>
     py_int (interp w) (getenv (environ w) ''TVM_ON_CPU'' (PyInt 0)) = int_of_str (interp w) s"
  by (simp add: getenv_def)

text \<open>
  Claim C2. Whenever the variable \<^verbatim>\<open>TVM_ON_CPU\<close> is set to text that \<^verbatim>\<open>int()\<close> reads as
  an integer strictly greater than 1, \<^verbatim>\<open>_get_target\<close> returns \<^verbatim>\<open>"llvm"\<close>, whether or not
  a GPU is available.
\<close>

theorem get_target_forced_cpu:
  assumes "environ w ''TVM_ON_CPU'' = Some s"
      and "int_of_str (interp w) s = Inr n"
      and "1 < n"
  shows "get_target tc w = Inr ''llvm''"
  using assms by (simp add: get_target_def getenv_int_set)

text \<open>
  The variable set to \<^verbatim>\<open>2\<close> on a machine with a GPU, with and without a TVM
  installation.
\<close>

theorem get_target_forced_cpu_witness:
  "environ (example_world (Some ''2'') True uuid_a uuid_b) ''TVM_ON_CPU'' = Some ''2'' \<and>
   int_of_str (interp (example_world (Some ''2'') True uuid_a uuid_b)) ''2'' = Inr 2 \<and>
   (1::int) < 2 \<and>
   cuda_is_available (example_world (Some ''2'') True uuid_a uuid_b) \<and>
   get_target example_toolchain (example_world (Some ''2'') True uuid_a uuid_b) = Inr ''llvm'' \<and>
   get_target stub_toolchain (example_world (Some ''2'') True uuid_a uuid_b) = Inr ''llvm''"
proof -
  let ?w = "example_world (Some ''2'') True uuid_a uuid_b"
  have set: "environ ?w ''TVM_ON_CPU'' = Some ''2''"
    by (simp add: example_world_def)
  have two: "int_of_str (interp ?w) ''2'' = Inr 2"
    by (simp add: example_interp int_of_str_2)
  have big: "(1::int) < 2" by simp
  have gpu: "cuda_is_available ?w"
    by (simp add: example_world_def)
  from get_target_forced_cpu [OF set two big, of example_toolchain]
       get_target_forced_cpu [OF set two big, of stub_toolchain] set two gpu
  show ?thesis by simp
qed

text \<open>
  Claim C3, as amended. Whenever \<^verbatim>\<open>TVM_ON_CPU\<close> is unset, or set to text that \<^verbatim>\<open>int()\<close>
  reads as an integer not greater than 1, and a CUDA GPU is available, \<^verbatim>\<open>_get_target\<close>
  returns the text of the CUDA target, \<^verbatim>\<open>str(tvm.target.cuda())\<close>, provided the module's
  \<^verbatim>\<open>import tvm\<close> succeeded; where the import guard left \<^verbatim>\<open>tvm\<close> unbound it raises
  NameError. In neither case does it return \<^verbatim>\<open>"llvm"\<close>, the CUDA target's text being a
  different one.
\<close>

theorem get_target_gpu:
  assumes "environ w ''TVM_ON_CPU'' = None \<or>
           (\<exists>s n. environ w ''TVM_ON_CPU'' = Some s \<and> int_of_str (interp w) s = Inr n \<and> n \<le> 1)"
      and "cuda_is_available w"
  shows "get_target tc w = (if tvm_bound tc then Inr (tvm_target_cuda tc) else Inl NameError) \<and>
         (tvm_target_cuda tc \<noteq> ''llvm'' \<longrightarrow> get_target tc w \<noteq> Inr ''llvm'')"
  using assms by (auto simp: get_target_def getenv_int_set getenv_int_unset)

text \<open>
  A machine with a GPU and a TVM installation, once with the variable unset and once
  with it set to \<^verbatim>\<open>1\<close>.
\<close>

theorem get_target_gpu_witness:
  "environ (example_world None True uuid_a uuid_b) ''TVM_ON_CPU'' = None \<and>
   cuda_is_available (example_world None True uuid_a uuid_b) \<and>
   tvm_bound example_toolchain \<and>
   get_target example_toolchain (example_world None True uuid_a uuid_b) =
     Inr ''cuda -keys=cuda,gpu -max_num_threads=1024 -thread_warp_size=32'' \<and>
   get_target example_toolchain (example_world None True uuid_a uuid_b) \<noteq> Inr ''llvm'' \<and>
   environ (example_world (Some ''1'') True uuid_a uuid_b) ''TVM_ON_CPU'' = Some ''1'' \<and>
   int_of_str (interp (example_world (Some ''1'') True uuid_a uuid_b)) ''1'' = Inr 1 \<and>
   get_target example_toolchain (example_world (Some ''1'') True uuid_a uuid_b) =
     Inr ''cuda -keys=cuda,gpu -max_num_threads=1024 -thread_warp_size=32''"
proof -
  let ?w = "example_world None True uuid_a uuid_b"
  let ?w1 = "example_world (Some ''1'') True uuid_a uuid_b"
  have unset: "environ ?w ''TVM_ON_CPU'' = None"
    by (simp add: example_world_def)
  have gpu: "cuda_is_available ?w"
    by (simp add: example_world_def)
  have set1: "environ ?w1 ''TVM_ON_CPU'' = Some ''1''"
    by (simp add: example_world_def)
  have one: "int_of_str (interp ?w1) ''1'' = Inr 1"
    by (simp add: example_interp int_of_str_1)
  have gpu1: "cuda_is_available ?w1"
    by (simp add: example_world_def)
  have low: "environ ?w1 ''TVM_ON_CPU'' = None \<or>
      (\<exists>s n. environ ?w1 ''TVM_ON_CPU'' = Some s \<and> int_of_str (interp ?w1) s = Inr n \<and> n \<le> 1)"
    using set1 one by simp
  have bound: "tvm_bound example_toolchain"
    by (simp add: example_toolchain_def)
  have cuda: "tvm_target_cuda example_toolchain =
      ''cuda -keys=cuda,gpu -max_num_threads=1024 -thread_warp_size=32''"
    by (simp add: example_toolchain_def)
  from get_target_gpu [OF disjI1 [OF unset] gpu, of example_toolchain]
       get_target_gpu [OF low gpu1, of example_toolchain]
  show ?thesis using unset gpu set1 one bound by (simp add: cuda)
qed

text \<open>
  Claim C3 as stated promises the GPU target for every such environment. On a machine
  with a GPU and no TVM installation the import guard has left \<^verbatim>\<open>tvm\<close> unbound: with
  the variable unset, \<^verbatim>\<open>_get_target\<close> raises NameError and returns nothing.
\<close>

theorem get_target_gpu_unbound_counterexample:
  "environ (example_world None True uuid_a uuid_b) ''TVM_ON_CPU'' = None \<and>
   cuda_is_available (example_world None True uuid_a uuid_b) \<and>
   get_target stub_toolchain (example_world None True uuid_a uuid_b) = Inl NameError"
  by (simp add: get_target_def getenv_def example_world_def stub_toolchain_def)

subsection \<open>The pipeline stops at its second step\<close>

text \<open>
  Whatever the arguments: when target selection returns, the call of
  \<^verbatim>\<open>_build_tvm_model\<close> without arguments raises TypeError, and nothing has been changed.
\<close>

lemma optimize_raises:
  "optimize tc self onnx_model output_library model_params w =
     (case get_target tc w of Inl e \<Rightarrow> (Inl e, w) | Inr target \<Rightarrow> (Inl TypeError, w))"
  by (simp add: optimize_def split: sum.splits)

text \<open>
  Claim C1 says that \<^verbatim>\<open>optimize\<close> invokes \<^verbatim>\<open>_build_tvm_model\<close> on the path and the
  model parameters it was given, so that the ONNX file is parsed before tuning begins. The
  source calls \<^verbatim>\<open>self._build_tvm_model()\<close> with no argument. With a model file that loads
  and parses, and one shape per input, the parse that the claim describes would return,
  but \<^verbatim>\<open>optimize\<close> raises TypeError and has parsed nothing.
\<close>

theorem optimize_never_parses:
  "build_tvm_model example_toolchain ''model.onnx'' example_params = Inr (IRModule 0, Params 0) \<and>
   optimize example_toolchain (example_optimizer ''torch'') ''model.onnx'' ''torch''
       example_params (example_world None False uuid_a uuid_b) =
     (Inl TypeError, example_world None False uuid_a uuid_b)"
  by (simp add: example_build_model optimize_raises example_target_cpu)


text \<open>
  Claim C5 says that a completed call returns the learner built by the registry entry of
  the model's parent framework, and that a framework missing from the registry makes
  \<^verbatim>\<open>optimize\<close> raise KeyError. The registry lookup stands after the call of
  \<^verbatim>\<open>_build_tvm_model\<close> without arguments and is never reached: with a parent framework
  that the registry does not hold, \<^verbatim>\<open>optimize\<close> raises TypeError, not KeyError.
\<close>

theorem optimize_unknown_framework:
  "TVM_INFERENCE_LEARNERS example_toolchain ''numpy'' = None \<and>
   fst (optimize example_toolchain (example_optimizer ''numpy'') ''model.onnx'' ''torch''
          example_params (example_world None False uuid_a uuid_b)) = Inl TypeError \<and>
   fst (optimize example_toolchain (example_optimizer ''numpy'') ''model.onnx'' ''torch''
          example_params (example_world None False uuid_a uuid_b)) \<noteq> Inl KeyError"
proof -
  have "TVM_INFERENCE_LEARNERS example_toolchain ''numpy'' = None"
    by (simp add: example_toolchain_def)
  moreover have
    "fst (optimize example_toolchain (example_optimizer ''numpy'') ''model.onnx'' ''torch''
            example_params (example_world None False uuid_a uuid_b)) = Inl TypeError"
    by (simp add: optimize_raises example_target_cpu)
  ultimately show ?thesis by simp
qed

text \<open>
  Claim C10. Two calls of \<^verbatim>\<open>optimize\<close> that differ only in \<^verbatim>\<open>output_library\<close> give the
  same result and leave the same surroundings: the parameter is never read.
\<close>

theorem optimize_ignores_output_library:
  "optimize tc self onnx_model output_library model_params w =
   optimize tc self onnx_model output_library' model_params w"
  by (simp add: optimize_def)

text \<open>The same call once for \<^verbatim>\<open>torch\<close> and once for \<^verbatim>\<open>tensorflow\<close>.\<close>

theorem optimize_ignores_output_library_witness:
  "optimize example_toolchain (example_optimizer ''torch'') ''model.onnx'' ''torch''
       example_params (example_world None False uuid_a uuid_b) =
   optimize example_toolchain (example_optimizer ''torch'') ''model.onnx'' ''tensorflow''
       example_params (example_world None False uuid_a uuid_b)"
  by (rule optimize_ignores_output_library)

subsection \<open>The shape dictionary\<close>

text \<open>The decimal text of an index determines the index.\<close>

lemma digit_char_inj:
  assumes "a < 10" and "b < 10" and "digit_char a = digit_char b"
  shows "a = b"
proof -
  from assms(3) have "(of_char (digit_char a) :: nat) = of_char (digit_char b)" by simp
  with assms(1,2) show ?thesis by (simp add: digit_char_def)
qed

lemma str_nat_not_Nil: "str_nat n \<noteq> []"
  by (subst str_nat.simps) simp

lemma str_nat_inj: "str_nat n = str_nat m \<Longrightarrow> n = m"
proof (induction n arbitrary: m rule: str_nat.induct)
  case (1 n)
  show ?case
  proof (cases "n < 10")
    case small: True
    show ?thesis
    proof (cases "m < 10")
      case True
      with small "1.prems" have "digit_char n = digit_char m"
        by (simp add: str_nat.simps [of n] str_nat.simps [of m])
      with small True show ?thesis by (rule digit_char_inj)
    next
      case False
      with small "1.prems" have "str_nat (m div 10) = []"
        by (simp add: str_nat.simps [of n] str_nat.simps [of m])
      then show ?thesis by (simp add: str_nat_not_Nil)
    qed
  next
    case big: False
    show ?thesis
    proof (cases "m < 10")
      case True
      with big "1.prems" have "str_nat (n div 10) = []"
        by (simp add: str_nat.simps [of n] str_nat.simps [of m])
      then show ?thesis by (simp add: str_nat_not_Nil)
    next
      case False
      with big "1.prems" have eq: "str_nat (n div 10) = str_nat (m div 10)"
        and d: "digit_char (n mod 10) = digit_char (m mod 10)"
        by (simp_all add: str_nat.simps [of n] str_nat.simps [of m])
      from "1.IH" [OF big eq] have "n div 10 = m div 10" .
      moreover from d have "n mod 10 = m mod 10"
        by (intro digit_char_inj) simp_all
      ultimately show ?thesis by (metis div_mult_mod_eq)
    qed
  qed
qed

text \<open>
  Storing pairs with distinct keys one after another gives exactly these pairs, in order.
\<close>

lemma update_fresh: "k \<notin> fst ` set al \<Longrightarrow> AList.update k v al = al @ [(k, v)]"
  by (induction al) auto

lemma foldl_update_distinct:
  "distinct (map fst (acc @ kvs)) \<Longrightarrow>
     foldl (\<lambda>d (k, v). AList.update k v d) acc kvs = acc @ kvs"
proof (induction kvs arbitrary: acc)
  case Nil
  then show ?case by simp
next
  case (Cons kv kvs)
  obtain k v where kv: "kv = (k, v)" by (cases kv)
  from Cons.prems kv have fresh: "k \<notin> fst ` set acc" by auto
  from Cons.prems kv have "distinct (map fst ((acc @ [(k, v)]) @ kvs))" by auto
  from Cons.IH [OF this] show ?case by (simp add: kv update_fresh [OF fresh])
qed

lemma dict_comprehension_distinct:
  "distinct (map fst kvs) \<Longrightarrow> dict_comprehension kvs = kvs"
  using foldl_update_distinct [of "[]" kvs] by (simp add: dict_comprehension_def)

lemma shape_keys_distinct:
  "distinct (map input_key [0..<n])"
  by (auto simp: distinct_map input_key_def intro!: inj_onI dest: str_nat_inj)

lemma shape_pairs:
  "map (\<lambda>(i, input_size). (input_key i, b # input_size)) (enumerate 0 sizes) =
     map (\<lambda>i. (input_key i, b # sizes ! i)) [0..<length sizes]"
  by (rule nth_equalityI) (simp_all add: nth_enumerate_eq)

lemma shape_dict_eq:
  "shape_dict mp =
     map (\<lambda>i. (input_key i, batch_size mp # input_sizes mp ! i))
         [0..<length (input_sizes mp)]"
proof -
  have "map fst (map (\<lambda>i. (input_key i, batch_size mp # input_sizes mp ! i))
                  [0..<length (input_sizes mp)]) =
        map input_key [0..<length (input_sizes mp)]"
    by simp
  then have "distinct (map fst (map (\<lambda>i. (input_key i, batch_size mp # input_sizes mp ! i))
                  [0..<length (input_sizes mp)]))"
    using shape_keys_distinct [of "length (input_sizes mp)"] by (simp add: comp_def)
  then show ?thesis
    unfolding shape_dict_def shape_pairs by (rule dict_comprehension_distinct)
qed

lemma build_tvm_model_eq:
  "build_tvm_model tc path mp =
     (case onnx_load tc path of
        Inl e \<Rightarrow> Inl e
      | Inr onnx_model \<Rightarrow>
          from_onnx tc onnx_model
            (map (\<lambda>i. (input_key i, batch_size mp # input_sizes mp ! i))
                 [0..<length (input_sizes mp)]))"
  unfolding build_tvm_model_def shape_dict_eq Let_def ..

text \<open>
  Claim C9. For model parameters with batch size \<open>b\<close> and input sizes
  \<open>s\<^sub>0, \<dots>, s\<^sub>n\<^sub>-\<^sub>1\<close>, the shape dictionary that \<^verbatim>\<open>_build_tvm_model\<close> constructs has
  exactly \<open>n\<close> entries, the \<open>i\<close>-th with the key \<^verbatim>\<open>input_i\<close> (the decimal text of \<open>i\<close>)
  and the value \<open>(b, *s\<^sub>i)\<close>, all keys different; and this dictionary is what is passed
  to the ONNX frontend parser, together with the model loaded from the path.
\<close>

theorem build_tvm_model_shape_dict:
  "length (shape_dict mp) = length (input_sizes mp) \<and>
   (\<forall>i < length (input_sizes mp).
      shape_dict mp ! i = (''input_'' @ str_nat i, batch_size mp # input_sizes mp ! i)) \<and>
   distinct (map fst (shape_dict mp)) \<and>
   build_tvm_model tc path mp =
     (case onnx_load tc path of
        Inl e \<Rightarrow> Inl e
      | Inr onnx_model \<Rightarrow>
          from_onnx tc onnx_model
            (map (\<lambda>i. (''input_'' @ str_nat i, batch_size mp # input_sizes mp ! i))
                 [0..<length (input_sizes mp)]))"
proof -
  have len: "length (shape_dict mp) = length (input_sizes mp)"
    by (simp add: shape_dict_eq)
  have nth: "\<forall>i < length (input_sizes mp).
      shape_dict mp ! i = (input_key i, batch_size mp # input_sizes mp ! i)"
    by (simp add: shape_dict_eq)
  have "map fst (shape_dict mp) = map input_key [0..<length (input_sizes mp)]"
    by (simp add: shape_dict_eq comp_def)
  then have dist: "distinct (map fst (shape_dict mp))"
    using shape_keys_distinct [of "length (input_sizes mp)"] by simp
  from len nth [unfolded input_key_def] dist build_tvm_model_eq [of tc path mp, unfolded input_key_def]
  show ?thesis by blast
qed

text \<open>Batch size 1 and the two inputs \<open>(3, 224, 224)\<close> and \<open>(10)\<close>.\<close>

lemma str_nat_0: "str_nat 0 = ''0''"
  by code_simp

lemma str_nat_Suc0: "str_nat (Suc 0) = ''1''"
  by code_simp

lemma example_shape_dict:
  "shape_dict example_params = [(''input_0'', [1, 3, 224, 224]), (''input_1'', [1, 10])]"
  by code_simp

theorem build_tvm_model_shape_dict_witness:
  "length (shape_dict example_params) = 2 \<and>
   shape_dict example_params ! 0 = (''input_0'', [1, 3, 224, 224]) \<and>
   shape_dict example_params ! 1 = (''input_1'', [1, 10]) \<and>
   build_tvm_model example_toolchain ''model.onnx'' example_params =
     from_onnx example_toolchain (OnnxModel 0)
       [(''input_0'', [1, 3, 224, 224]), (''input_1'', [1, 10])]"
proof -
  have sizes: "input_sizes example_params = [[3, 224, 224], [10]]"
    and batch: "batch_size example_params = 1"
    by (simp_all add: example_params_def)
  have load: "onnx_load example_toolchain ''model.onnx'' = Inr (OnnxModel 0)"
    by (simp add: example_toolchain_def)
  have range: "[0..<2] = [0, Suc 0]" by (simp add: upt_rec)
  from build_tvm_model_shape_dict [of example_params example_toolchain "''model.onnx''"]
  show ?thesis
    by (simp add: sizes batch load range str_nat_0 str_nat_Suc0)
qed

subsection \<open>Tuning\<close>

text \<open>What one tuner run and the loop over the tasks change.\<close>

lemma log_to_file_fields [simp]:
  "tuner_events (log_to_file f records w) = tuner_events w"
  "uuid4_calls (log_to_file f records w) = uuid4_calls w"
  "uuid4_stream (log_to_file f records w) = uuid4_stream w"
  "environ (log_to_file f records w) = environ w"
  "cuda_is_available (log_to_file f records w) = cuda_is_available w"
  by (simp_all add: log_to_file_def)

lemma log_to_file_other: "g \<noteq> f \<Longrightarrow> files (log_to_file f records w) g = files w g"
  by (simp add: log_to_file_def)

lemma fold_log_fields:
  "tuner_events (fold (\<lambda>f. log_to_file f records) fs w) = tuner_events w \<and>
   uuid4_calls (fold (\<lambda>f. log_to_file f records) fs w) = uuid4_calls w \<and>
   uuid4_stream (fold (\<lambda>f. log_to_file f records) fs w) = uuid4_stream w"
  by (induction fs arbitrary: w) simp_all

lemma fold_log_other:
  "g \<notin> set fs \<Longrightarrow> files (fold (\<lambda>f. log_to_file f records) fs w) g = files w g"
  by (induction fs arbitrary: w) (simp_all add: log_to_file_other)

lemma run_tuner_effect:
  assumes "run_tuner tc c w = (r, w')"
  shows "tuner_events w' = tuner_events w @ (if isl r then [TuneBegin c] else [TuneBegin c, TuneEnd c])"
    and "uuid4_calls w' = uuid4_calls w"
    and "uuid4_stream w' = uuid4_stream w"
    and "g \<notin> set (arg_callbacks c) \<Longrightarrow> files w' g = files w g"
  using assms
  by (auto simp: run_tuner_def Let_def fold_log_fields fold_log_other
           split: prod.splits option.splits)

lemma one_after_another_Cons:
  "one_after_another (c # cs) = TuneBegin c # TuneEnd c # one_after_another cs"
  by (simp add: one_after_another_def)

lemma one_after_another_Nil: "one_after_another [] = []"
  by (simp add: one_after_another_def)

lemma tune_tasks_frame:
  assumes "tune_tasks tc file rnr its w = (r, w')"
  shows "uuid4_calls w' = uuid4_calls w \<and> uuid4_stream w' = uuid4_stream w \<and>
         (\<forall>g. g \<noteq> file \<longrightarrow> files w' g = files w g)"
  using assms
proof (induction its arbitrary: w)
  case Nil
  then show ?case by simp
next
  case (Cons it its)
  obtain i task where it: "it = (i, task)" by (cases it)
  obtain r1 w1 where step: "run_tuner tc (tuner_call tc file rnr task) w = (r1, w1)"
    by (cases "run_tuner tc (tuner_call tc file rnr task) w")
  have cb: "arg_callbacks (tuner_call tc file rnr task) = [file]"
    by (simp add: tuner_call_def)
  have frame1: "uuid4_calls w1 = uuid4_calls w \<and> uuid4_stream w1 = uuid4_stream w \<and>
         (\<forall>g. g \<noteq> file \<longrightarrow> files w1 g = files w g)"
    using run_tuner_effect(2,3,4) [OF step] by (simp add: cb)
  show ?case
  proof (cases r1)
    case (Inl e)
    with Cons.prems it step have "w' = w1" by simp
    with frame1 show ?thesis by simp
  next
    case (Inr u)
    with Cons.prems it step have "tune_tasks tc file rnr its w1 = (r, w')" by simp
    from Cons.IH [OF this] frame1 show ?thesis by simp
  qed
qed

lemma tune_tasks_events:
  assumes "tune_tasks tc file rnr its w = (r, w')"
  shows "\<exists>k. (if isl r then k < length its else k = length its) \<and>
           tuner_events w' = tuner_events w @
             one_after_another (map (\<lambda>it. tuner_call tc file rnr (snd it)) (take k its)) @
             (if isl r then [TuneBegin (tuner_call tc file rnr (snd (its ! k)))] else [])"
  using assms
proof (induction its arbitrary: w)
  case Nil
  then have "r = Inr ()" and "w' = w" by simp_all
  then show ?case by (simp add: one_after_another_Nil)
next
  case (Cons it its)
  obtain i task where it: "it = (i, task)" by (cases it)
  let ?c = "tuner_call tc file rnr task"
  obtain r1 w1 where step: "run_tuner tc ?c w = (r1, w1)"
    by (cases "run_tuner tc ?c w")
  note ev1 = run_tuner_effect(1) [OF step]
  show ?case
  proof (cases r1)
    case (Inl e)
    with Cons.prems it step have res: "r = Inl e" "w' = w1" by simp_all
    have "(if isl r then 0 < length (it # its) else 0 = length (it # its)) \<and>
           tuner_events w' = tuner_events w @
             one_after_another (map (\<lambda>it. tuner_call tc file rnr (snd it)) (take 0 (it # its))) @
             (if isl r then [TuneBegin (tuner_call tc file rnr (snd ((it # its) ! 0)))] else [])"
      using ev1 res Inl it by (simp add: one_after_another_Nil)
    then show ?thesis by blast
  next
    case (Inr u)
    with Cons.prems it step have "tune_tasks tc file rnr its w1 = (r, w')" by simp
    from Cons.IH [OF this] obtain k where
      k: "if isl r then k < length its else k = length its"
      and ev: "tuner_events w' = tuner_events w1 @
             one_after_another (map (\<lambda>it. tuner_call tc file rnr (snd it)) (take k its)) @
             (if isl r then [TuneBegin (tuner_call tc file rnr (snd (its ! k)))] else [])"
      by blast
    have "(if isl r then Suc k < length (it # its) else Suc k = length (it # its)) \<and>
           tuner_events w' = tuner_events w @
             one_after_another (map (\<lambda>it. tuner_call tc file rnr (snd it)) (take (Suc k) (it # its))) @
             (if isl r then [TuneBegin (tuner_call tc file rnr (snd ((it # its) ! Suc k)))] else [])"
      using k ev ev1 Inr it by (simp add: one_after_another_Cons)
    then show ?thesis by blast
  qed
qed


lemma started_append: "started (es @ es') = started es @ started es'"
  by (induction es rule: started.induct) simp_all

lemma started_one_after_another: "started (one_after_another cs) = cs"
  by (induction cs) (simp_all add: one_after_another_Nil one_after_another_Cons)

lemma tuner_call_fields:
  "arg_task (tuner_call tc file rnr task) = task"
  "arg_n_trial (tuner_call tc file rnr task) =
     min (trials (AUTO_TVM_TUNING_OPTION tc)) (int (config_space_len task))"
  "arg_early_stopping (tuner_call tc file rnr task) = early_stopping (AUTO_TVM_TUNING_OPTION tc)"
  "arg_callbacks (tuner_call tc file rnr task) = [file]"
  by (simp_all add: tuner_call_def)

lemma take_enumerate_snd:
  "map (\<lambda>it. f (snd it)) (take k (enumerate n xs)) = map f (take k xs)"
proof -
  have "map (\<lambda>it. f (snd it)) (take k (enumerate n xs)) =
        map f (map snd (take k (enumerate n xs)))"
    by (simp add: comp_def)
  also have "\<dots> = map f (take k (map snd (enumerate n xs)))"
    by (simp only: take_map)
  also have "\<dots> = map f (take k xs)"
    by (simp only: map_snd_enumerate)
  finally show ?thesis .
qed

lemma tune_tvm_model_unfold:
  "tune_tvm_model tc target irmod params w =
     (case extract_from_program tc irmod target params of
        Inl e \<Rightarrow> (Inl e, w\<lparr>uuid4_calls := Suc (uuid4_calls w)\<rparr>)
      | Inr tasks \<Rightarrow>
          (case tune_tasks tc (records_name (uuid4_stream w (uuid4_calls w))) (local_runner tc)
                  (enumerate 0 tasks) (w\<lparr>uuid4_calls := Suc (uuid4_calls w)\<rparr>) of
             (Inl e, w2) \<Rightarrow> (Inl e, w2)
           | (Inr u, w2) \<Rightarrow> (Inr (records_name (uuid4_stream w (uuid4_calls w))), w2)))"
  by (simp add: tune_tvm_model_def uuid4_def Let_def)


lemma tune_tvm_model_draw:
  assumes "tune_tvm_model tc target irmod params w = (r, w')"
  shows "uuid4_calls w' = Suc (uuid4_calls w)"
    and "uuid4_stream w' = uuid4_stream w"
    and "r = Inr name \<Longrightarrow> name = records_name (uuid4_stream w (uuid4_calls w))"
proof -
  let ?w1 = "w\<lparr>uuid4_calls := Suc (uuid4_calls w)\<rparr>"
  let ?file = "records_name (uuid4_stream w (uuid4_calls w))"
  have all: "uuid4_calls w' = Suc (uuid4_calls w) \<and> uuid4_stream w' = uuid4_stream w \<and>
             (\<forall>name. r = Inr name \<longrightarrow> name = ?file)"
  proof (cases "extract_from_program tc irmod target params")
    case (Inl e)
    with assms have "r = Inl e" and "w' = ?w1" by (simp_all add: tune_tvm_model_unfold)
    then show ?thesis by simp
  next
    case (Inr tasks)
    obtain r0 w2 where
      loop: "tune_tasks tc ?file (local_runner tc) (enumerate 0 tasks) ?w1 = (r0, w2)"
      by (cases "tune_tasks tc ?file (local_runner tc) (enumerate 0 tasks) ?w1")
    from assms Inr loop have "w' = w2" and "\<forall>name. r = Inr name \<longrightarrow> name = ?file"
      by (cases r0; simp add: tune_tvm_model_unfold; blast)+
    with tune_tasks_frame [OF loop] show ?thesis by simp
  qed
  from all show "uuid4_calls w' = Suc (uuid4_calls w)" by blast
  from all show "uuid4_stream w' = uuid4_stream w" by blast
  from all show "name = ?file" if "r = Inr name" using that by blast
qed


lemma tune_tvm_model_events:
  assumes ex: "extract_from_program tc irmod target params = Inr tasks"
      and run: "tune_tvm_model tc target irmod params w = (r, w')"
  shows "\<exists>k. (if isl r then k < length tasks else k = length tasks) \<and>
           tuner_events w' = tuner_events w @
             one_after_another
               (map (tuner_call tc (records_name (uuid4_stream w (uuid4_calls w))) (local_runner tc))
                    (take k tasks)) @
             (if isl r
              then [TuneBegin (tuner_call tc (records_name (uuid4_stream w (uuid4_calls w)))
                                 (local_runner tc) (tasks ! k))]
              else [])"
proof -
  let ?w1 = "w\<lparr>uuid4_calls := Suc (uuid4_calls w)\<rparr>"
  let ?file = "records_name (uuid4_stream w (uuid4_calls w))"
  let ?call = "tuner_call tc ?file (local_runner tc)"
  obtain r0 w2 where
    loop: "tune_tasks tc ?file (local_runner tc) (enumerate 0 tasks) ?w1 = (r0, w2)"
    by (cases "tune_tasks tc ?file (local_runner tc) (enumerate 0 tasks) ?w1")
  from run ex loop have w': "w' = w2"
    by (cases r0) (simp_all add: tune_tvm_model_unfold)
  from run ex loop have isl: "isl r = isl r0"
    by (cases r0) (auto simp: tune_tvm_model_unfold)
  from tune_tasks_events [OF loop] obtain k where
    k: "if isl r0 then k < length (enumerate 0 tasks) else k = length (enumerate 0 tasks)"
    and ev: "tuner_events w2 = tuner_events ?w1 @
       one_after_another (map (\<lambda>it. ?call (snd it)) (take k (enumerate 0 tasks))) @
       (if isl r0 then [TuneBegin (?call (snd (enumerate 0 tasks ! k)))] else [])"
    by blast
  from k have k': "if isl r then k < length tasks else k = length tasks"
    by (simp add: isl split: if_splits)
  have nth: "snd (enumerate 0 tasks ! k) = tasks ! k" if "isl r0"
    using k that by (simp add: nth_enumerate_eq)
  have "tuner_events w' = tuner_events w @ one_after_another (map ?call (take k tasks)) @
          (if isl r then [TuneBegin (?call (tasks ! k))] else [])"
  proof (cases "isl r0")
    case True
    with ev nth show ?thesis by (simp add: w' isl take_enumerate_snd)
  next
    case False
    with ev show ?thesis by (simp add: w' isl take_enumerate_snd)
  qed
  with k' show ?thesis by blast
qed

lemma tune_tvm_model_files:
  assumes "tune_tvm_model tc target irmod params w = (r, w')"
      and "g \<noteq> records_name (uuid4_stream w (uuid4_calls w))"
  shows "files w' g = files w g"
proof (cases "extract_from_program tc irmod target params")
  case (Inl e)
  with assms(1) have "w' = w\<lparr>uuid4_calls := Suc (uuid4_calls w)\<rparr>"
    by (simp add: tune_tvm_model_unfold)
  then show ?thesis by simp
next
  case (Inr tasks)
  let ?w1 = "w\<lparr>uuid4_calls := Suc (uuid4_calls w)\<rparr>"
  let ?file = "records_name (uuid4_stream w (uuid4_calls w))"
  obtain r0 w2 where
    loop: "tune_tasks tc ?file (local_runner tc) (enumerate 0 tasks) ?w1 = (r0, w2)"
    by (cases "tune_tasks tc ?file (local_runner tc) (enumerate 0 tasks) ?w1")
  from assms(1) Inr loop have "w' = w2"
    by (cases r0) (simp_all add: tune_tvm_model_unfold)
  with tune_tasks_frame [OF loop] assms(2) show ?thesis by simp
qed

text \<open>
  The tuner runs of one call of \<^verbatim>\<open>_tune_tvm_model\<close>, whether the call returns or a
  tuner raises: the calls for the first \<open>n\<close> tasks, each but possibly the last returned.
\<close>

lemma tune_tvm_model_started:
  assumes ex: "extract_from_program tc irmod target params = Inr tasks"
      and run: "tune_tvm_model tc target irmod params w = (r, w')"
  shows "\<exists>es n. tuner_events w' = tuner_events w @ es \<and>
           (if isl r then 0 < n \<and> n \<le> length tasks else n = length tasks) \<and>
           started es =
             map (tuner_call tc (records_name (uuid4_stream w (uuid4_calls w))) (local_runner tc))
                 (take n tasks) \<and>
           es = (if isl r
                 then one_after_another (butlast (started es)) @ [TuneBegin (last (started es))]
                 else one_after_another (started es))"
proof -
  let ?file = "records_name (uuid4_stream w (uuid4_calls w))"
  let ?call = "tuner_call tc ?file (local_runner tc)"
  from tune_tvm_model_events [OF ex run] obtain k where
    k: "if isl r then k < length tasks else k = length tasks"
    and ev: "tuner_events w' = tuner_events w @ one_after_another (map ?call (take k tasks)) @
          (if isl r then [TuneBegin (?call (tasks ! k))] else [])"
    by blast
  let ?es = "one_after_another (map ?call (take k tasks)) @
          (if isl r then [TuneBegin (?call (tasks ! k))] else [])"
  let ?n = "if isl r then Suc k else k"
  have st: "started ?es = map ?call (take ?n tasks)"
    using k by (simp add: started_append started_one_after_another take_Suc_conv_app_nth
                      split: if_splits)
  have n: "if isl r then 0 < ?n \<and> ?n \<le> length tasks else ?n = length tasks"
    using k by (simp split: if_splits)
  have shape: "?es = (if isl r
                 then one_after_another (butlast (started ?es)) @ [TuneBegin (last (started ?es))]
                 else one_after_another (started ?es))"
    unfolding st using k by (simp add: take_Suc_conv_app_nth split: if_splits)
  from ev n st shape show ?thesis by blast
qed

lemma example_extract:
  "extract_from_program example_toolchain (IRModule 0) ''llvm'' (Params 0) = Inr example_tasks"
  by (simp add: example_toolchain_def)

lemma example_run_returns:
  "fst (tune_tvm_model example_toolchain ''llvm'' (IRModule 0) (Params 0)
          (example_world None False uuid_a uuid_b)) =
     Inr ''6fa459ea-ee8a-4ca4-894e-db77e160355e_model_records.json''"
  by code_simp

lemma map_arg_task_call: "map arg_task (map (tuner_call tc file rnr) ts) = ts"
  by (induction ts) (simp_all add: tuner_call_fields)

lemma list_all_calls:
  "list_all (\<lambda>c. arg_n_trial c =
                   min (trials (AUTO_TVM_TUNING_OPTION tc)) (int (config_space_len (arg_task c))) \<and>
                 arg_early_stopping c = early_stopping (AUTO_TVM_TUNING_OPTION tc) \<and>
                 arg_callbacks c = [file])
            (map (tuner_call tc file rnr) ts)"
  by (induction ts) (simp_all add: tuner_call_fields)

lemma list_all_callbacks:
  "list_all (\<lambda>c. arg_callbacks c = [file]) (map (tuner_call tc file rnr) ts)"
  by (induction ts) (simp_all add: tuner_call_fields)

text \<open>
  Claim C6. In a run of \<^verbatim>\<open>_tune_tvm_model\<close> the tuner is started once for each
  extracted task, in order (for each task up to the one whose tuner raised, when one
  does), and every such call has the trial budget \<^verbatim>\<open>min(trials, len(task.config_space))\<close>,
  the configured early-stopping threshold, and the run's tuning-records file as the file
  its callback logs to.
\<close>

theorem tune_tvm_model_budget:
  assumes "extract_from_program tc irmod target params = Inr tasks"
      and "tune_tvm_model tc target irmod params w = (r, w')"
  shows "\<exists>es. tuner_events w' = tuner_events w @ es \<and>
           map arg_task (started es) =
             (if isl r then take (length (started es)) tasks else tasks) \<and>
           list_all (\<lambda>c. arg_n_trial c =
                            min (trials (AUTO_TVM_TUNING_OPTION tc))
                                (int (config_space_len (arg_task c))) \<and>
                          arg_early_stopping c = early_stopping (AUTO_TVM_TUNING_OPTION tc) \<and>
                          arg_callbacks c = [records_name (uuid4_stream w (uuid4_calls w))])
                    (started es)"
proof -
  let ?file = "records_name (uuid4_stream w (uuid4_calls w))"
  from tune_tvm_model_started [OF assms] obtain es n where
    ev: "tuner_events w' = tuner_events w @ es"
    and n: "if isl r then 0 < n \<and> n \<le> length tasks else n = length tasks"
    and st: "started es = map (tuner_call tc ?file (local_runner tc)) (take n tasks)"
    by blast
  from n have len: "length (started es) = n"
    by (simp add: st split: if_splits)
  have "map arg_task (started es) = take n tasks"
    unfolding st by (rule map_arg_task_call)
  with n len have tasks:
    "map arg_task (started es) = (if isl r then take (length (started es)) tasks else tasks)"
    by (simp split: if_splits)
  have args: "list_all (\<lambda>c. arg_n_trial c =
                            min (trials (AUTO_TVM_TUNING_OPTION tc))
                                (int (config_space_len (arg_task c))) \<and>
                          arg_early_stopping c = early_stopping (AUTO_TVM_TUNING_OPTION tc) \<and>
                          arg_callbacks c = [?file])
                    (started es)"
    unfolding st by (rule list_all_calls)
  from ev tasks args show ?thesis by blast
qed

text \<open>
  Two tasks with 4 and 1000 configurations and 10 configured trials: the budgets are
  4 and 10.
\<close>

theorem tune_tvm_model_budget_witness:
  "extract_from_program example_toolchain (IRModule 0) ''llvm'' (Params 0) = Inr example_tasks \<and>
   fst (tune_tvm_model example_toolchain ''llvm'' (IRModule 0) (Params 0)
          (example_world None False uuid_a uuid_b)) =
     Inr ''6fa459ea-ee8a-4ca4-894e-db77e160355e_model_records.json'' \<and>
   (\<exists>es. tuner_events (snd (tune_tvm_model example_toolchain ''llvm'' (IRModule 0) (Params 0)
                              (example_world None False uuid_a uuid_b))) = es \<and>
      map arg_task (started es) = example_tasks \<and>
      list_all (\<lambda>c. arg_n_trial c = min 10 (int (config_space_len (arg_task c))) \<and>
                     arg_early_stopping c = 100 \<and>
                     arg_callbacks c = [''6fa459ea-ee8a-4ca4-894e-db77e160355e_model_records.json''])
               (started es))"
proof -
  let ?w = "example_world None False uuid_a uuid_b"
  let ?run = "tune_tvm_model example_toolchain ''llvm'' (IRModule 0) (Params 0) ?w"
  have run: "?run = (fst ?run, snd ?run)" by simp
  have cfg: "trials (AUTO_TVM_TUNING_OPTION example_toolchain) = 10"
    "early_stopping (AUTO_TVM_TUNING_OPTION example_toolchain) = 100"
    by (simp_all add: example_toolchain_def)
  have start: "tuner_events ?w = []" "uuid4_stream ?w (uuid4_calls ?w) = uuid_a"
    by (simp_all add: example_world_def)
  have name: "records_name uuid_a = ''6fa459ea-ee8a-4ca4-894e-db77e160355e_model_records.json''"
    by (simp add: records_name_def uuid_a_def)
  from tune_tvm_model_budget [OF example_extract run]
  show ?thesis
    by (simp add: example_extract example_run_returns cfg start name)
qed


text \<open>
  Claim C7. In every run of \<^verbatim>\<open>_tune_tvm_model\<close> the tasks are tuned one after another in
  the order of extraction: each tuner run returns before the next one starts, the task
  of the \<open>i\<close>-th run is the \<open>i\<close>-th extracted task, none is skipped or reordered, every
  run logs to the same file, no other file is touched, and the name of that file is the
  value returned. A run in which a tuner raises has tuned a prefix of the tasks in this
  way and has started, not finished, the next one.
\<close>

theorem tune_tvm_model_sequential:
  assumes "extract_from_program tc irmod target params = Inr tasks"
      and "tune_tvm_model tc target irmod params w = (r, w')"
  shows "\<exists>cs. list_all (\<lambda>c. arg_callbacks c = [records_name (uuid4_stream w (uuid4_calls w))]) cs \<and>
           (case r of
              Inr name \<Rightarrow>
                name = records_name (uuid4_stream w (uuid4_calls w)) \<and>
                map arg_task cs = tasks \<and>
                tuner_events w' = tuner_events w @ one_after_another cs
            | Inl e \<Rightarrow>
                cs \<noteq> [] \<and> map arg_task cs = take (length cs) tasks \<and>
                tuner_events w' =
                  tuner_events w @ one_after_another (butlast cs) @ [TuneBegin (last cs)]) \<and>
           (\<forall>g. g \<noteq> records_name (uuid4_stream w (uuid4_calls w)) \<longrightarrow> files w' g = files w g)"
proof -
  let ?file = "records_name (uuid4_stream w (uuid4_calls w))"
  from tune_tvm_model_started [OF assms] obtain es n where
    ev: "tuner_events w' = tuner_events w @ es"
    and n: "if isl r then 0 < n \<and> n \<le> length tasks else n = length tasks"
    and st: "started es = map (tuner_call tc ?file (local_runner tc)) (take n tasks)"
    and shape: "es = (if isl r
                 then one_after_another (butlast (started es)) @ [TuneBegin (last (started es))]
                 else one_after_another (started es))"
    by blast
  let ?cs = "started es"
  from n have len: "length ?cs = n"
    by (simp add: st split: if_splits)
  have tasks: "map arg_task ?cs = take n tasks"
    unfolding st by (rule map_arg_task_call)
  have cb: "list_all (\<lambda>c. arg_callbacks c = [?file]) ?cs"
    unfolding st by (rule list_all_callbacks)
  have files: "\<forall>g. g \<noteq> ?file \<longrightarrow> files w' g = files w g"
    using tune_tvm_model_files [OF assms(2)] by blast
  have run: "case r of
              Inr name \<Rightarrow>
                name = ?file \<and> map arg_task ?cs = tasks \<and>
                tuner_events w' = tuner_events w @ one_after_another ?cs
            | Inl e \<Rightarrow>
                ?cs \<noteq> [] \<and> map arg_task ?cs = take (length ?cs) tasks \<and>
                tuner_events w' =
                  tuner_events w @ one_after_another (butlast ?cs) @ [TuneBegin (last ?cs)]"
  proof (cases r)
    case (Inl e)
    with n have "0 < n" by simp
    with len have "?cs \<noteq> []" by auto
    moreover from Inl shape have
      "es = one_after_another (butlast ?cs) @ [TuneBegin (last ?cs)]" by simp
    ultimately show ?thesis using Inl tasks len ev by simp
  next
    case (Inr name)
    with n have "n = length tasks" by simp
    moreover from Inr shape have "es = one_after_another ?cs" by simp
    moreover from tune_tvm_model_draw(3) [OF assms(2) Inr] have "name = ?file" .
    ultimately show ?thesis using Inr tasks ev by simp
  qed
  from cb run files show ?thesis by blast
qed

text \<open>The two example tasks, tuned in order, into the file named after the first draw.\<close>

theorem tune_tvm_model_sequential_witness:
  "extract_from_program example_toolchain (IRModule 0) ''llvm'' (Params 0) = Inr example_tasks \<and>
   (\<exists>cs. list_all (\<lambda>c. arg_callbacks c =
                           [''6fa459ea-ee8a-4ca4-894e-db77e160355e_model_records.json'']) cs \<and>
      fst (tune_tvm_model example_toolchain ''llvm'' (IRModule 0) (Params 0)
             (example_world None False uuid_a uuid_b)) =
        Inr ''6fa459ea-ee8a-4ca4-894e-db77e160355e_model_records.json'' \<and>
      map arg_task cs = example_tasks \<and>
      tuner_events (snd (tune_tvm_model example_toolchain ''llvm'' (IRModule 0) (Params 0)
                           (example_world None False uuid_a uuid_b))) =
        one_after_another cs)"
proof -
  let ?w = "example_world None False uuid_a uuid_b"
  let ?run = "tune_tvm_model example_toolchain ''llvm'' (IRModule 0) (Params 0) ?w"
  have run: "?run = (fst ?run, snd ?run)" by simp
  have start: "tuner_events ?w = []" "uuid4_stream ?w (uuid4_calls ?w) = uuid_a"
    by (simp_all add: example_world_def)
  have name: "records_name uuid_a = ''6fa459ea-ee8a-4ca4-894e-db77e160355e_model_records.json''"
    by (simp add: records_name_def uuid_a_def)
  from tune_tvm_model_sequential [OF example_extract run]
  show ?thesis
    by (auto simp: example_extract example_run_returns start name)
qed


lemma records_name_inj: "records_name u = records_name u' \<longleftrightarrow> u = u'"
  by (simp add: records_name_def)

text \<open>
  Claim C8, as amended. Each run of \<^verbatim>\<open>_tune_tvm_model\<close> makes exactly one draw from
  \<^verbatim>\<open>uuid.uuid4()\<close> and names its file by the text of the draw followed by
  \<^verbatim>\<open>_model_records.json\<close>; of two runs in sequence, the second starting where the first
  ended, the file names differ exactly when the two draws differ.
\<close>

theorem tuning_records_names:
  assumes "tune_tvm_model tc target irmod params w = (r1, w1)"
      and "tune_tvm_model tc' target' irmod' params' w1 = (r2, w2)"
  shows "uuid4_calls w1 = Suc (uuid4_calls w) \<and>
         uuid4_calls w2 = Suc (Suc (uuid4_calls w)) \<and>
         (\<forall>name1 name2. r1 = Inr name1 \<and> r2 = Inr name2 \<longrightarrow>
            name1 = records_name (uuid4_stream w (uuid4_calls w)) \<and>
            name2 = records_name (uuid4_stream w (Suc (uuid4_calls w))) \<and>
            (name1 \<noteq> name2 \<longleftrightarrow>
               uuid4_stream w (uuid4_calls w) \<noteq> uuid4_stream w (Suc (uuid4_calls w))))"
proof -
  note first = tune_tvm_model_draw [OF assms(1)]
  note second = tune_tvm_model_draw [OF assms(2)]
  have calls: "uuid4_calls w1 = Suc (uuid4_calls w)" "uuid4_calls w2 = Suc (Suc (uuid4_calls w))"
    using first(1) second(1) by simp_all
  have names: "name1 = records_name (uuid4_stream w (uuid4_calls w)) \<and>
            name2 = records_name (uuid4_stream w (Suc (uuid4_calls w))) \<and>
            (name1 \<noteq> name2 \<longleftrightarrow>
               uuid4_stream w (uuid4_calls w) \<noteq> uuid4_stream w (Suc (uuid4_calls w)))"
    if "r1 = Inr name1" and "r2 = Inr name2" for name1 name2
  proof -
    from first(3) [OF that(1)] have n1: "name1 = records_name (uuid4_stream w (uuid4_calls w))" .
    from second(3) [OF that(2)] have
      n2: "name2 = records_name (uuid4_stream w (Suc (uuid4_calls w)))"
      by (simp add: first(1) first(2))
    from n1 n2 show ?thesis by (simp add: records_name_inj)
  qed
  from calls names show ?thesis by blast
qed

lemma example_run_second:
  "fst (tune_tvm_model example_toolchain ''llvm'' (IRModule 0) (Params 0)
          (snd (tune_tvm_model example_toolchain ''llvm'' (IRModule 0) (Params 0)
             (example_world None False uuid_a uuid_b)))) =
     Inr ''16fd2706-8baf-433b-82eb-8c7fada847da_model_records.json''"
  by code_simp

text \<open>Two runs whose draws are different.\<close>

theorem tuning_records_names_witness:
  "fst (tune_tvm_model example_toolchain ''llvm'' (IRModule 0) (Params 0)
          (example_world None False uuid_a uuid_b)) =
     Inr ''6fa459ea-ee8a-4ca4-894e-db77e160355e_model_records.json'' \<and>
   fst (tune_tvm_model example_toolchain ''llvm'' (IRModule 0) (Params 0)
          (snd (tune_tvm_model example_toolchain ''llvm'' (IRModule 0) (Params 0)
             (example_world None False uuid_a uuid_b)))) =
     Inr ''16fd2706-8baf-433b-82eb-8c7fada847da_model_records.json'' \<and>
   uuid4_calls (snd (tune_tvm_model example_toolchain ''llvm'' (IRModule 0) (Params 0)
          (snd (tune_tvm_model example_toolchain ''llvm'' (IRModule 0) (Params 0)
             (example_world None False uuid_a uuid_b))))) = 2 \<and>
   uuid_a \<noteq> uuid_b"
proof -
  let ?w = "example_world None False uuid_a uuid_b"
  let ?run1 = "tune_tvm_model example_toolchain ''llvm'' (IRModule 0) (Params 0) ?w"
  let ?run2 = "tune_tvm_model example_toolchain ''llvm'' (IRModule 0) (Params 0) (snd ?run1)"
  have run1: "?run1 = (fst ?run1, snd ?run1)" by simp
  have run2: "?run2 = (fst ?run2, snd ?run2)" by simp
  have start: "uuid4_calls ?w = 0" by (simp add: example_world_def)
  have differ: "uuid_a \<noteq> uuid_b" by (simp add: uuid_a_def uuid_b_def)
  from tuning_records_names [OF run1 run2] start differ
  show ?thesis by (simp add: example_run_returns example_run_second)
qed

text \<open>
  Claim C8 as stated says that two runs never share a file name. Nothing in the adapter
  compares a fresh name with earlier ones: when the random source gives the same value
  twice, both runs return the same name.
\<close>

theorem tuning_records_name_reused_counterexample:
  "fst (tune_tvm_model example_toolchain ''llvm'' (IRModule 0) (Params 0)
          (example_world None False uuid_a uuid_a)) =
     Inr ''6fa459ea-ee8a-4ca4-894e-db77e160355e_model_records.json'' \<and>
   fst (tune_tvm_model example_toolchain ''llvm'' (IRModule 0) (Params 0)
          (snd (tune_tvm_model example_toolchain ''llvm'' (IRModule 0) (Params 0)
             (example_world None False uuid_a uuid_a)))) =
     Inr ''6fa459ea-ee8a-4ca4-894e-db77e160355e_model_records.json''"
  by code_simp

end
